theory Spec2Isabelle
  imports Main "HOL-Library.Word"
begin

section \<open>Collaborators that the dispatch table only consumes\<close>

text \<open>
  \<^verbatim>\<open>TensorTypeId\<close> is an enumeration over \<^verbatim>\<open>uint8_t\<close>; its declaration
  (\<^verbatim>\<open>c10/core/TensorTypeId.h\<close>) is not part of the sources at hand. The table uses three
  things of it: the enumerator \<^verbatim>\<open>UndefinedTensorId\<close>, the enumerator \<^verbatim>\<open>NumTensorIds\<close>
  (the length of the slot array) and the function \<^verbatim>\<open>toString\<close>. They are parameters of
  the model, collected in one record; the general results below hold for each choice of them.
\<close>

type_synonym TensorTypeId = "8 word"

record TensorTypeId_decl =
  UndefinedTensorId :: TensorTypeId
  NumTensorIds :: TensorTypeId
  toString :: "TensorTypeId \<Rightarrow> string"

text \<open>
  Modelled from the spec: \<^verbatim>\<open>KernelFunction\<close> (\<^verbatim>\<open>ATen/core/boxing/KernelFunction.h\<close> is
  missing). The spec describes a kernel value as an opaque callable with a validity
  predicate, a default invalid (empty) state, reassignment, and a mutator that installs a
  calling-convention retrofit pointer. The callable is kept as an identity of type \<open>'f\<close>,
  absent in the invalid state; the retrofit pointer has type \<open>'b\<close>.
\<close>

record ('f, 'b) KernelFunction =
  callable :: "'f option"
  retrofit :: "'b option"

definition KernelFunction_default :: "('f, 'b) KernelFunction" where
  "KernelFunction_default = \<lparr>callable = None, retrofit = None\<rparr>"

definition isValid :: "('f, 'b) KernelFunction \<Rightarrow> bool" where
  "isValid kfn = (callable kfn \<noteq> None)"

definition setManuallyBoxedKernel_KF ::
  "'b \<Rightarrow> ('f, 'b) KernelFunction \<Rightarrow> ('f, 'b) KernelFunction" where
  "setManuallyBoxedKernel_KF func kfn = kfn\<lparr>retrofit := Some func\<rparr>"

text \<open>
  Modelled from the spec: the rendering of a dispatch key in the diagnostic listing
  (\<^verbatim>\<open>toString(TensorTypeId)\<close> is missing). The spec shows keys as decimal numbers.
\<close>

fun decimal :: "nat \<Rightarrow> string" where
  "decimal n =
     (if n < 10 then [''0123456789'' ! n]
      else decimal (n div 10) @ [''0123456789'' ! (n mod 10)])"

definition toString_decimal :: "TensorTypeId \<Rightarrow> string" where
  "toString_decimal dispatchKey = decimal (unat dispatchKey)"

section \<open>Failures\<close>

text \<open>
  \<^verbatim>\<open>TORCH_INTERNAL_ASSERT\<close> throws when its condition is false; the object then keeps
  the state it had at the throw. Each mutator of the model therefore returns a pair: what
  the call produced (\<open>Inl\<close> an error, \<open>Inr\<close> the value) and the state the object is left
  in. In the source every assertion precedes every write of its function.

  Indexing a \<^verbatim>\<open>std::array\<close> beyond its length has no defined meaning in C++. The model
  stops there with \<open>OutOfBounds\<close>, which keeps such a call apart from a failed assertion.
\<close>

datatype error = AssertionFailed | OutOfBounds

section \<open>KernelFunctionTable\<close>

record ('f, 'b) KernelFunctionTable =
  kernels :: "('f, 'b) KernelFunction list"
  kernelCount :: "64 word"

datatype SetKernelResult = ADDED_NEW_KERNEL | OVERWROTE_EXISTING_KERNEL

datatype RemoveKernelIfExistsResult = REMOVED_KERNEL | KERNEL_DIDNT_EXIST

definition KernelFunctionTable_new :: "TensorTypeId_decl \<Rightarrow> ('f, 'b) KernelFunctionTable" where
  "KernelFunctionTable_new decl =
     \<lparr>kernels = replicate (unat (NumTensorIds decl)) KernelFunction_default,
      kernelCount = 0\<rparr>"

definition kft_setKernel ::
  "TensorTypeId_decl \<Rightarrow> TensorTypeId \<Rightarrow> ('f, 'b) KernelFunction \<Rightarrow> ('f, 'b) KernelFunctionTable
     \<Rightarrow> (error + SetKernelResult) \<times> ('f, 'b) KernelFunctionTable" where
  "kft_setKernel decl dispatchKey kfn t =
     (if dispatchKey = UndefinedTensorId decl then (Inl AssertionFailed, t)
      else if length (kernels t) \<le> unat dispatchKey then (Inl OutOfBounds, t)
      else if isValid (kernels t ! unat dispatchKey)
        then (Inr OVERWROTE_EXISTING_KERNEL,
              t\<lparr>kernels := (kernels t)[unat dispatchKey := kfn]\<rparr>)
        else (Inr ADDED_NEW_KERNEL,
              t\<lparr>kernelCount := kernelCount t + 1,
                kernels := (kernels t)[unat dispatchKey := kfn]\<rparr>))"

definition kft_removeKernelIfExists ::
  "TensorTypeId \<Rightarrow> ('f, 'b) KernelFunctionTable
     \<Rightarrow> (error + RemoveKernelIfExistsResult) \<times> ('f, 'b) KernelFunctionTable" where
  "kft_removeKernelIfExists dispatchKey t =
     (if length (kernels t) \<le> unat dispatchKey then (Inl OutOfBounds, t)
      else if isValid (kernels t ! unat dispatchKey)
        then (Inr REMOVED_KERNEL,
              t\<lparr>kernelCount := kernelCount t - 1,
                kernels := (kernels t)[unat dispatchKey := KernelFunction_default]\<rparr>)
        else (Inr KERNEL_DIDNT_EXIST, t))"

text \<open>\<^verbatim>\<open>operator[]\<close>, reading.\<close>

definition kft_at ::
  "('f, 'b) KernelFunctionTable \<Rightarrow> TensorTypeId \<Rightarrow> error + ('f, 'b) KernelFunction" where
  "kft_at t dispatchKey =
     (if length (kernels t) \<le> unat dispatchKey then Inl OutOfBounds
      else Inr (kernels t ! unat dispatchKey))"

definition kft_size :: "('f, 'b) KernelFunctionTable \<Rightarrow> 64 word" where
  "kft_size t = kernelCount t"

section \<open>DispatchTable\<close>

text \<open>
  The key extractor is stored and handed out, never called: it has the opaque type \<open>'e\<close>.
  The member \<^verbatim>\<open>kernels_\<close> of the table is the field \<open>kernelTable\<close> here (the slot array of
  the \<^verbatim>\<open>KernelFunctionTable\<close> already has the name \<open>kernels\<close>); the other fields carry the
  names of the source without the trailing underscore.
\<close>

record ('f, 'b, 'e) DispatchTable =
  kernelTable :: "('f, 'b) KernelFunctionTable"
  catchallKernel :: "('f, 'b) KernelFunction"
  dispatchKeyExtractor :: 'e
  operatorName :: string
  manuallyBoxedKernel :: "'b option"

text \<open>
  The constructor takes a schema, from which it derives the key extractor and the name of
  the operator; the model takes these two. No initialiser is given for
  \<^verbatim>\<open>manuallyBoxedKernel_\<close>, so the optional starts empty.
\<close>

definition DispatchTable_new ::
  "TensorTypeId_decl \<Rightarrow> 'e \<Rightarrow> string \<Rightarrow> ('f, 'b, 'e) DispatchTable" where
  "DispatchTable_new decl extractor opname =
     \<lparr>kernelTable = KernelFunctionTable_new decl,
      catchallKernel = KernelFunction_default,
      dispatchKeyExtractor = extractor,
      operatorName = opname,
      manuallyBoxedKernel = None\<rparr>"

text \<open>The mutators return the texts handed to \<^verbatim>\<open>TORCH_WARN\<close> as their value.\<close>

definition setKernel ::
  "TensorTypeId_decl \<Rightarrow> TensorTypeId \<Rightarrow> ('f, 'b) KernelFunction \<Rightarrow> ('f, 'b, 'e) DispatchTable
     \<Rightarrow> (error + string list) \<times> ('f, 'b, 'e) DispatchTable" where
  "setKernel decl dispatchKey kfn t =
     (let kfn1 = (case manuallyBoxedKernel t of
                    Some func \<Rightarrow> setManuallyBoxedKernel_KF func kfn
                  | None \<Rightarrow> kfn);
          (result, ks) = kft_setKernel decl dispatchKey kfn1 (kernelTable t)
      in case result of
           Inl e \<Rightarrow> (Inl e, t\<lparr>kernelTable := ks\<rparr>)
         | Inr r \<Rightarrow>
             (Inr (if r = OVERWROTE_EXISTING_KERNEL
                   then [''Registered a kernel for operator '' @ operatorName t
                         @ '' with dispatch key '' @ toString decl dispatchKey
                         @ '' that overwrote a previously registered kernel with the same dispatch key for the same operator.'']
                   else []),
              t\<lparr>kernelTable := ks\<rparr>))"

definition removeKernelIfExists ::
  "TensorTypeId \<Rightarrow> ('f, 'b, 'e) DispatchTable \<Rightarrow> (error + unit) \<times> ('f, 'b, 'e) DispatchTable" where
  "removeKernelIfExists dispatchKey t =
     (let (result, ks) = kft_removeKernelIfExists dispatchKey (kernelTable t)
      in (map_sum id (\<lambda>r. ()) result, t\<lparr>kernelTable := ks\<rparr>))"

definition setCatchallKernel ::
  "('f, 'b) KernelFunction \<Rightarrow> ('f, 'b, 'e) DispatchTable
     \<Rightarrow> (error + string list) \<times> ('f, 'b, 'e) DispatchTable" where
  "setCatchallKernel kfn t =
     (let warnings = (if isValid (catchallKernel t)
                      then [''Registered a catch-all kernel for operator '' @ operatorName t
                            @ '' that overwrote a previously registered catch-all kernel for the same operator.'']
                      else []);
          kfn1 = (case manuallyBoxedKernel t of
                    Some func \<Rightarrow> setManuallyBoxedKernel_KF func kfn
                  | None \<Rightarrow> kfn)
      in (Inr warnings, t\<lparr>catchallKernel := kfn1\<rparr>))"

definition removeCatchallKernel ::
  "('f, 'b, 'e) DispatchTable \<Rightarrow> (error + unit) \<times> ('f, 'b, 'e) DispatchTable" where
  "removeCatchallKernel t =
     (if \<not> isValid (catchallKernel t) then (Inl AssertionFailed, t)
      else (Inr (), t\<lparr>catchallKernel := KernelFunction_default\<rparr>))"

definition isEmpty :: "('f, 'b, 'e) DispatchTable \<Rightarrow> bool" where
  "isEmpty t = (\<not> isValid (catchallKernel t) \<and> kft_size (kernelTable t) = 0)"

text \<open>
  The loop of \<^verbatim>\<open>listAllDispatchKeys\<close>: \<open>iter\<close> is a \<^verbatim>\<open>uint8_t\<close> compared with
  \<^verbatim>\<open>!=\<close>, so it would wrap around before it stops if it started beyond the bound. The
  distance to the bound, taken modulo 256, falls with every round.
\<close>

function listAllDispatchKeys_loop ::
  "TensorTypeId_decl \<Rightarrow> ('f, 'b) KernelFunctionTable \<Rightarrow> 8 word \<Rightarrow> bool \<Rightarrow> string
     \<Rightarrow> error + bool \<times> string" where
  "listAllDispatchKeys_loop decl ks iter has_kernels str =
     (if iter = NumTensorIds decl then Inr (has_kernels, str)
      else case kft_at ks iter of
             Inl e \<Rightarrow> Inl e
           | Inr slot \<Rightarrow>
               if \<not> isValid slot
               then listAllDispatchKeys_loop decl ks (iter + 1) has_kernels str
               else listAllDispatchKeys_loop decl ks (iter + 1) True
                      (str @ (if has_kernels then '', '' else []) @ toString decl iter))"
  by pat_completeness auto
termination
  by (relation "measure (\<lambda>(decl, ks, iter, has_kernels, str). unat (NumTensorIds decl - iter))")
     (simp_all only: wf_measure in_measure prod.case diff_diff_eq [symmetric],
      (rule measure_unat, simp)+)

declare listAllDispatchKeys_loop.simps [simp del]

definition listAllDispatchKeys ::
  "TensorTypeId_decl \<Rightarrow> ('f, 'b, 'e) DispatchTable \<Rightarrow> error + string" where
  "listAllDispatchKeys decl t =
     (case listAllDispatchKeys_loop decl (kernelTable t) 0 False ''['' of
        Inl e \<Rightarrow> Inl e
      | Inr (has_kernels, str) \<Rightarrow>
          Inr ((if isValid (catchallKernel t)
                then str @ (if has_kernels then '', '' else []) @ ''CATCH-ALL''
                else str) @ '']''))"

definition lookup ::
  "('f, 'b, 'e) DispatchTable \<Rightarrow> TensorTypeId \<Rightarrow> error + ('f, 'b) KernelFunction option" where
  "lookup t dispatchKey =
     (case kft_at (kernelTable t) dispatchKey of
        Inl e \<Rightarrow> Inl e
      | Inr slot \<Rightarrow> Inr (if isValid slot then Some slot else None))"

definition lookupCatchallKernel ::
  "('f, 'b, 'e) DispatchTable \<Rightarrow> ('f, 'b) KernelFunction option" where
  "lookupCatchallKernel t =
     (if \<not> isValid (catchallKernel t) then None else Some (catchallKernel t))"

text \<open>
  The loop of \<^verbatim>\<open>setManuallyBoxedKernel_\<close> over the slot array, writing through the
  reference that \<^verbatim>\<open>operator[]\<close> returns. It holds the table reached so far, which is the
  one left behind if a read fails.
\<close>

function setManuallyBoxedKernel_loop ::
  "TensorTypeId_decl \<Rightarrow> 'b \<Rightarrow> 8 word \<Rightarrow> ('f, 'b) KernelFunctionTable
     \<Rightarrow> (error + unit) \<times> ('f, 'b) KernelFunctionTable" where
  "setManuallyBoxedKernel_loop decl func iter ks =
     (if iter = NumTensorIds decl then (Inr (), ks)
      else case kft_at ks iter of
             Inl e \<Rightarrow> (Inl e, ks)
           | Inr slot \<Rightarrow>
               if isValid slot
               then setManuallyBoxedKernel_loop decl func (iter + 1)
                      (ks\<lparr>kernels := (kernels ks)[unat iter := setManuallyBoxedKernel_KF func slot]\<rparr>)
               else setManuallyBoxedKernel_loop decl func (iter + 1) ks)"
  by pat_completeness auto
termination
  by (relation "measure (\<lambda>(decl, func, iter, ks). unat (NumTensorIds decl - iter))")
     (simp_all only: wf_measure in_measure prod.case diff_diff_eq [symmetric],
      (rule measure_unat, simp)+)

declare setManuallyBoxedKernel_loop.simps [simp del]

text \<open>
  \<^verbatim>\<open>DispatchTable::setManuallyBoxedKernel_\<close>: the assertion, then the loop. The function
  has no further statement; in particular it writes neither \<^verbatim>\<open>manuallyBoxedKernel_\<close> nor
  \<^verbatim>\<open>catchallKernel_\<close>.
\<close>

definition setManuallyBoxedKernel_DT ::
  "TensorTypeId_decl \<Rightarrow> 'b \<Rightarrow> ('f, 'b, 'e) DispatchTable
     \<Rightarrow> (error + unit) \<times> ('f, 'b, 'e) DispatchTable" where
  "setManuallyBoxedKernel_DT decl func t =
     (if manuallyBoxedKernel t \<noteq> None then (Inl AssertionFailed, t)
      else let (result, ks) = setManuallyBoxedKernel_loop decl func 0 (kernelTable t)
           in (result, t\<lparr>kernelTable := ks\<rparr>))"

section \<open>Notions used to state the properties\<close>

text \<open>The number of occupied keyed slots, counted by a scan of the array.\<close>

definition occupied :: "('f, 'b) KernelFunctionTable \<Rightarrow> nat" where
  "occupied ks = length (filter isValid (kernels ks))"

text \<open>
  The array has the length its type gives it, and the counter agrees with the scan.
\<close>

definition table_ok :: "TensorTypeId_decl \<Rightarrow> ('f, 'b) KernelFunctionTable \<Rightarrow> bool" where
  "table_ok decl ks =
     (length (kernels ks) = unat (NumTensorIds decl) \<and> unat (kft_size ks) = occupied ks)"

text \<open>
  The calls a registry can make on a table, and the table each of them leaves behind,
  whether it returned or threw.
\<close>

datatype ('f, 'b) call =
    SetKernel TensorTypeId "('f, 'b) KernelFunction"
  | RemoveKernelIfExists TensorTypeId
  | SetCatchallKernel "('f, 'b) KernelFunction"
  | RemoveCatchallKernel
  | SetManuallyBoxedKernel 'b

fun perform ::
  "TensorTypeId_decl \<Rightarrow> ('f, 'b) call \<Rightarrow> ('f, 'b, 'e) DispatchTable \<Rightarrow> ('f, 'b, 'e) DispatchTable" where
  "perform decl (SetKernel dispatchKey kfn) t = snd (setKernel decl dispatchKey kfn t)"
| "perform decl (RemoveKernelIfExists dispatchKey) t = snd (removeKernelIfExists dispatchKey t)"
| "perform decl (SetCatchallKernel kfn) t = snd (setCatchallKernel kfn t)"
| "perform decl RemoveCatchallKernel t = snd (removeCatchallKernel t)"
| "perform decl (SetManuallyBoxedKernel func) t = snd (setManuallyBoxedKernel_DT decl func t)"

fun run ::
  "TensorTypeId_decl \<Rightarrow> ('f, 'b) call list \<Rightarrow> ('f, 'b, 'e) DispatchTable \<Rightarrow> ('f, 'b, 'e) DispatchTable" where
  "run decl [] t = t"
| "run decl (c # cs) t = run decl cs (perform decl c t)"

text \<open>
  A keyed call is admissible when its key is an enumerator below \<^verbatim>\<open>NumTensorIds\<close>, so
  that the array access has a meaning, and the kernel it registers is a kernel, that is a
  \<^verbatim>\<open>KernelFunction\<close> in its valid state (the invalid state is how a slot says "empty").
  Registering at the undefined key is admissible too: the assertion refuses it.
\<close>

fun admissible :: "TensorTypeId_decl \<Rightarrow> ('f, 'b) call \<Rightarrow> bool" where
  "admissible decl (SetKernel dispatchKey kfn) =
     (dispatchKey = UndefinedTensorId decl
      \<or> unat dispatchKey < unat (NumTensorIds decl) \<and> isValid kfn)"
| "admissible decl (RemoveKernelIfExists dispatchKey) =
     (unat dispatchKey < unat (NumTensorIds decl))"
| "admissible decl (SetCatchallKernel kfn) = True"
| "admissible decl RemoveCatchallKernel = True"
| "admissible decl (SetManuallyBoxedKernel func) = True"

text \<open>
  The listing as the spec words it: the occupied keys in ascending order, then the marker
  if the catch-all is installed, separated by a comma and a blank, in brackets.
\<close>

fun comma_separated :: "string list \<Rightarrow> string" where
  "comma_separated [] = []"
| "comma_separated [x] = x"
| "comma_separated (x # y # zs) = x @ '', '' @ comma_separated (y # zs)"

definition occupied_keys_from :: "('f, 'b) KernelFunctionTable \<Rightarrow> nat \<Rightarrow> TensorTypeId list" where
  "occupied_keys_from ks i =
     map of_nat (filter (\<lambda>j. isValid (kernels ks ! j)) [i..<length (kernels ks)])"

definition occupied_keys :: "('f, 'b) KernelFunctionTable \<Rightarrow> TensorTypeId list" where
  "occupied_keys ks = occupied_keys_from ks 0"

definition listing :: "TensorTypeId_decl \<Rightarrow> ('f, 'b, 'e) DispatchTable \<Rightarrow> string" where
  "listing decl t =
     ''['' @ comma_separated
              (map (toString decl) (occupied_keys (kernelTable t))
               @ (if isValid (catchallKernel t) then [''CATCH-ALL''] else []))
     @ '']''"

text \<open>
  The slot array after the retrofit has reached every occupied slot.
\<close>

definition retrofitted :: "'b \<Rightarrow> ('f, 'b) KernelFunction \<Rightarrow> ('f, 'b) KernelFunction" where
  "retrofitted func kfn = (if isValid kfn then setManuallyBoxedKernel_KF func kfn else kfn)"

subsection \<open>A concrete table\<close>

text \<open>
  Six enumerators with the undefined one first, keys shown as decimal numbers; callables
  and retrofit pointers are numbered.
\<close>

definition decl6 :: TensorTypeId_decl where
  "decl6 = \<lparr>UndefinedTensorId = 0, NumTensorIds = 6, toString = toString_decimal\<rparr>"

definition kernel_of :: "nat \<Rightarrow> (nat, nat) KernelFunction" where
  "kernel_of n = \<lparr>callable = Some n, retrofit = None\<rparr>"

definition table_empty :: "(nat, nat, unit) DispatchTable" where
  "table_empty = DispatchTable_new decl6 () ''add''"

definition table_1_4_catchall :: "(nat, nat, unit) DispatchTable" where
  "table_1_4_catchall =
     run decl6 [SetKernel 1 (kernel_of 1), SetKernel 4 (kernel_of 2), SetCatchallKernel (kernel_of 3)]
       table_empty"

section \<open>Auxiliary facts\<close>

subsection \<open>The counter and the slots\<close>

lemma filter_list_update_count:
  "i < length xs \<Longrightarrow>
   length (filter P (xs[i := v])) + (if P (xs ! i) then 1 else 0)
     = length (filter P xs) + (if P v then 1 else 0)"
proof (induction xs arbitrary: i)
  case Nil
  then show ?case by simp
next
  case (Cons x xs)
  show ?case
  proof (cases i)
    case 0
    then show ?thesis by simp
  next
    case (Suc j)
    with Cons.prems have "j < length xs" by simp
    from Cons.IH [OF this] Suc show ?thesis by simp
  qed
qed

lemma unat_uint8_bound: "unat (n :: 8 word) < 256"
  using unsigned_less [of n, where 'a = nat] by simp

lemma table_ok_new: "table_ok decl (KernelFunctionTable_new decl)"
  by (simp add: table_ok_def KernelFunctionTable_new_def occupied_def kft_size_def
      isValid_def KernelFunction_default_def)

lemma table_ok_kft_setKernel:
  assumes ok: "table_ok decl ks" and v: "isValid kfn"
  shows "table_ok decl (snd (kft_setKernel decl k kfn ks))"
proof (cases "k = UndefinedTensorId decl \<or> length (kernels ks) \<le> unat k")
  case True
  then show ?thesis using ok by (auto simp: kft_setKernel_def)
next
  case False
  then have lt: "unat k < length (kernels ks)" by simp
  from ok have len: "length (kernels ks) = unat (NumTensorIds decl)"
    and cnt: "unat (kernelCount ks) = length (filter isValid (kernels ks))"
    by (simp_all add: table_ok_def occupied_def kft_size_def)
  have bound: "length (filter isValid (kernels ks)) < 256"
    using length_filter_le [of isValid "kernels ks"] len unat_uint8_bound [of "NumTensorIds decl"]
    by simp
  note upd = filter_list_update_count [OF lt, of isValid kfn]
  show ?thesis
  proof (cases "isValid (kernels ks ! unat k)")
    case True
    with upd v have "length (filter isValid ((kernels ks)[unat k := kfn]))
        = length (filter isValid (kernels ks))"
      by simp
    with True False len cnt show ?thesis
      by (simp add: kft_setKernel_def table_ok_def occupied_def kft_size_def)
  next
    case inv: False
    with upd v have e: "length (filter isValid ((kernels ks)[unat k := kfn]))
        = length (filter isValid (kernels ks)) + 1"
      by simp
    have "unat (kernelCount ks + 1) = unat (kernelCount ks) + 1"
      using cnt bound unat_add_lem [of "kernelCount ks" 1] by simp
    with inv False len cnt e show ?thesis
      by (simp add: kft_setKernel_def table_ok_def occupied_def kft_size_def)
  qed
qed

lemma table_ok_kft_setKernel_undefined:
  "table_ok decl ks \<Longrightarrow> table_ok decl (snd (kft_setKernel decl (UndefinedTensorId decl) kfn ks))"
  by (simp add: kft_setKernel_def)

lemma not_isValid_default: "\<not> isValid KernelFunction_default"
  by (simp add: isValid_def KernelFunction_default_def)

lemma table_ok_kft_removeKernelIfExists:
  assumes ok: "table_ok decl ks"
  shows "table_ok decl (snd (kft_removeKernelIfExists k ks))"
proof (cases "length (kernels ks) \<le> unat k \<or> \<not> isValid (kernels ks ! unat k)")
  case True
  then show ?thesis using ok by (auto simp: kft_removeKernelIfExists_def)
next
  case False
  then have lt: "unat k < length (kernels ks)" and v: "isValid (kernels ks ! unat k)"
    by simp_all
  from ok have len: "length (kernels ks) = unat (NumTensorIds decl)"
    and cnt: "unat (kernelCount ks) = length (filter isValid (kernels ks))"
    by (simp_all add: table_ok_def occupied_def kft_size_def)
  from filter_list_update_count [OF lt, of isValid KernelFunction_default] v
  have e: "length (filter isValid ((kernels ks)[unat k := KernelFunction_default])) + 1
      = length (filter isValid (kernels ks))"
    by (simp add: not_isValid_default)
  with cnt have "kernelCount ks \<noteq> 0" by auto
  then have "unat (kernelCount ks - 1) = unat (kernelCount ks) - 1"
    by (rule unat_minus_one)
  with e cnt have "unat (kernelCount ks - 1)
      = length (filter isValid ((kernels ks)[unat k := KernelFunction_default]))"
    by simp
  with lt v len show ?thesis
    by (simp add: kft_removeKernelIfExists_def table_ok_def occupied_def kft_size_def)
qed

lemma isValid_setManuallyBoxedKernel_KF [simp]:
  "isValid (setManuallyBoxedKernel_KF func kfn) = isValid kfn"
  by (simp add: isValid_def setManuallyBoxedKernel_KF_def)

subsection \<open>The retrofit loop\<close>

text \<open>The retrofit loop, started at \<open>iter\<close>, rewrites the slots from \<open>iter\<close> on.\<close>

lemma setManuallyBoxedKernel_loop_result:
  assumes "length (kernels ks) = unat (NumTensorIds decl)"
    and "unat iter \<le> unat (NumTensorIds decl)"
    and "n = unat (NumTensorIds decl) - unat iter"
  shows "setManuallyBoxedKernel_loop decl func iter ks =
           (Inr (), ks\<lparr>kernels := take (unat iter) (kernels ks)
                                   @ map (retrofitted func) (drop (unat iter) (kernels ks))\<rparr>)"
  using assms
proof (induction n arbitrary: iter ks)
  case 0
  then have "unat iter = unat (NumTensorIds decl)" by simp
  then have "iter = NumTensorIds decl" by (simp add: word_unat_eq_iff)
  with 0 show ?case by (simp add: setManuallyBoxedKernel_loop.simps [of decl func "NumTensorIds decl"])
next
  case (Suc n)
  then have lt: "unat iter < unat (NumTensorIds decl)" by simp
  then have ne: "iter \<noteq> NumTensorIds decl" by auto
  have suc: "unat (iter + 1) = unat iter + 1"
    using lt unat_uint8_bound [of "NumTensorIds decl"] unat_add_lem [of iter 1] by simp
  let ?slot = "kernels ks ! unat iter"
  let ?ks' = "ks\<lparr>kernels := (kernels ks)[unat iter := retrofitted func ?slot]\<rparr>"
  have step: "setManuallyBoxedKernel_loop decl func iter ks
      = setManuallyBoxedKernel_loop decl func (iter + 1) ?ks'"
    using ne lt Suc.prems(1)
    by (subst setManuallyBoxedKernel_loop.simps) (simp add: kft_at_def retrofitted_def)
  have len': "length (kernels ?ks') = unat (NumTensorIds decl)"
    using Suc.prems(1) by simp
  have "setManuallyBoxedKernel_loop decl func (iter + 1) ?ks'
      = (Inr (), ?ks'\<lparr>kernels := take (unat (iter + 1)) (kernels ?ks')
                                   @ map (retrofitted func) (drop (unat (iter + 1)) (kernels ?ks'))\<rparr>)"
    using Suc.prems lt suc by (intro Suc.IH [OF len']) simp_all
  moreover have "take (unat (iter + 1)) (kernels ?ks')
        @ map (retrofitted func) (drop (unat (iter + 1)) (kernels ?ks'))
      = take (unat iter) (kernels ks) @ map (retrofitted func) (drop (unat iter) (kernels ks))"
    using lt Suc.prems(1)
    by (simp add: suc take_Suc_conv_app_nth Cons_nth_drop_Suc [symmetric])
  ultimately show ?case using step by simp
qed

lemma setManuallyBoxedKernel_loop_all:
  assumes "length (kernels ks) = unat (NumTensorIds decl)"
  shows "setManuallyBoxedKernel_loop decl func 0 ks =
           (Inr (), ks\<lparr>kernels := map (retrofitted func) (kernels ks)\<rparr>)"
  using setManuallyBoxedKernel_loop_result [OF assms, of 0 "unat (NumTensorIds decl)" func]
  by simp

lemma isValid_retrofitted [simp]: "isValid (retrofitted func kfn) = isValid kfn"
  by (simp add: retrofitted_def)

text \<open>
  What \<^verbatim>\<open>DispatchTable::setManuallyBoxedKernel_\<close> does on a table that records no
  retrofit: it returns, every occupied keyed slot carries \<open>func\<close>, and nothing else is
  written.
\<close>

lemma setManuallyBoxedKernel_DT_result:
  assumes "manuallyBoxedKernel t = None"
    and "length (kernels (kernelTable t)) = unat (NumTensorIds decl)"
  shows "setManuallyBoxedKernel_DT decl func t =
           (Inr (), t\<lparr>kernelTable :=
                        (kernelTable t)\<lparr>kernels := map (retrofitted func) (kernels (kernelTable t))\<rparr>\<rparr>)"
  using assms(1) by (simp add: setManuallyBoxedKernel_DT_def setManuallyBoxedKernel_loop_all [OF assms(2)])

subsection \<open>The concrete tables\<close>

lemma table_empty_eval:
  "table_empty =
     \<lparr>kernelTable = \<lparr>kernels = replicate 6 \<lparr>callable = None, retrofit = None\<rparr>, kernelCount = 0\<rparr>,
      catchallKernel = \<lparr>callable = None, retrofit = None\<rparr>,
      dispatchKeyExtractor = (), operatorName = ''add'', manuallyBoxedKernel = None\<rparr>"
  by (simp add: table_empty_def DispatchTable_new_def KernelFunctionTable_new_def
      KernelFunction_default_def decl6_def)

lemma replicate6: "replicate 6 x = [x, x, x, x, x, x]"
  by (simp add: numeral_eq_Suc)

lemma table_1_4_catchall_eval:
  "table_1_4_catchall =
     \<lparr>kernelTable =
        \<lparr>kernels = [\<lparr>callable = None, retrofit = None\<rparr>, kernel_of 1,
                    \<lparr>callable = None, retrofit = None\<rparr>, \<lparr>callable = None, retrofit = None\<rparr>,
                    kernel_of 2, \<lparr>callable = None, retrofit = None\<rparr>],
         kernelCount = 2\<rparr>,
      catchallKernel = kernel_of 3,
      dispatchKeyExtractor = (), operatorName = ''add'', manuallyBoxedKernel = None\<rparr>"
  by (simp add: table_1_4_catchall_def table_empty_eval replicate6 setKernel_def
      setCatchallKernel_def kft_setKernel_def isValid_def decl6_def kernel_of_def)

lemmas eval_defs = decl6_def kernel_of_def
  KernelFunction_default_def isValid_def
  setKernel_def removeKernelIfExists_def setCatchallKernel_def removeCatchallKernel_def
  kft_setKernel_def kft_removeKernelIfExists_def kft_at_def kft_size_def
  setManuallyBoxedKernel_DT_def setManuallyBoxedKernel_KF_def table_ok_def occupied_def
  lookup_def lookupCatchallKernel_def isEmpty_def

lemma length_table_1_4_catchall:
  "length (kernels (kernelTable table_1_4_catchall)) = unat (NumTensorIds decl6)"
  by (simp add: table_1_4_catchall_eval decl6_def)

lemma length_table_empty:
  "length (kernels (kernelTable table_empty)) = unat (NumTensorIds decl6)"
  by (simp add: table_empty_eval decl6_def)

section \<open>The retrofit reaches past and future kernels (C1)\<close>

text \<open>
  C1. The table holds kernels at the keys 1 and 4 and a catch-all kernel, and records no
  retrofit. \<open>setManuallyBoxedKernel_(7)\<close> returns. The kernel at key 1 then carries the
  retrofit, but the catch-all kernel does not, the table still records no retrofit, and a
  keyed kernel and a catch-all kernel registered after the call do not carry it either.
\<close>

theorem installRetrofit_misses_catchall_and_later_kernels:
  "fst (setManuallyBoxedKernel_DT decl6 7 table_1_4_catchall) = Inr ()
   \<and> lookup (snd (setManuallyBoxedKernel_DT decl6 7 table_1_4_catchall)) 1
       = Inr (Some \<lparr>callable = Some 1, retrofit = Some 7\<rparr>)
   \<and> lookupCatchallKernel (snd (setManuallyBoxedKernel_DT decl6 7 table_1_4_catchall))
       = Some \<lparr>callable = Some 3, retrofit = None\<rparr>
   \<and> manuallyBoxedKernel (snd (setManuallyBoxedKernel_DT decl6 7 table_1_4_catchall)) = None
   \<and> lookup (snd (setKernel decl6 2 \<lparr>callable = Some 5, retrofit = None\<rparr>
                (snd (setManuallyBoxedKernel_DT decl6 7 table_1_4_catchall)))) 2
       = Inr (Some \<lparr>callable = Some 5, retrofit = None\<rparr>)
   \<and> lookupCatchallKernel (snd (setCatchallKernel \<lparr>callable = Some 6, retrofit = None\<rparr>
                (snd (setManuallyBoxedKernel_DT decl6 7 table_1_4_catchall))))
       = Some \<lparr>callable = Some 6, retrofit = None\<rparr>"
proof -
  have none: "manuallyBoxedKernel table_1_4_catchall = None"
    by (simp add: table_1_4_catchall_eval)
  show ?thesis
    by (simp add: setManuallyBoxedKernel_DT_result [OF none length_table_1_4_catchall])
       (simp add: table_1_4_catchall_eval eval_defs retrofitted_def)
qed

section \<open>The retrofit is installed once (C2)\<close>

text \<open>
  C2. On a freshly constructed table \<open>setManuallyBoxedKernel_(7)\<close> returns and leaves
  \<^verbatim>\<open>manuallyBoxedKernel_\<close> empty, so the assertion of a second call,
  \<open>setManuallyBoxedKernel_(8)\<close>, holds again and that call returns as well.
\<close>

theorem installRetrofit_second_call_returns:
  "fst (setManuallyBoxedKernel_DT decl6 7 table_empty) = Inr ()
   \<and> manuallyBoxedKernel (snd (setManuallyBoxedKernel_DT decl6 7 table_empty)) = None
   \<and> fst (setManuallyBoxedKernel_DT decl6 8 (snd (setManuallyBoxedKernel_DT decl6 7 table_empty)))
       = Inr ()"
proof -
  have none: "manuallyBoxedKernel table_empty = None"
    by (simp add: table_empty_eval)
  let ?t1 = "snd (setManuallyBoxedKernel_DT decl6 7 table_empty)"
  have first: "setManuallyBoxedKernel_DT decl6 7 table_empty
      = (Inr (), table_empty\<lparr>kernelTable :=
           (kernelTable table_empty)\<lparr>kernels := map (retrofitted 7) (kernels (kernelTable table_empty))\<rparr>\<rparr>)"
    by (rule setManuallyBoxedKernel_DT_result [OF none length_table_empty])
  have none1: "manuallyBoxedKernel ?t1 = None"
    using none by (simp add: first)
  have len1: "length (kernels (kernelTable ?t1)) = unat (NumTensorIds decl6)"
    using length_table_empty by (simp add: first)
  from first none1 setManuallyBoxedKernel_DT_result [OF none1 len1, of 8]
  show ?thesis by simp
qed

section \<open>The undefined key (C3)\<close>

text \<open>
  The claim C3 fails at the undefined key on \<open>removeKernelIfExists\<close>: the call is
  processed and returns.
\<close>

theorem removeKernelIfExists_accepts_undefined_key:
  "removeKernelIfExists (UndefinedTensorId decl6) table_1_4_catchall
     = (Inr (), table_1_4_catchall)"
  by (simp add: table_1_4_catchall_eval removeKernelIfExists_def kft_removeKernelIfExists_def
      decl6_def isValid_def)

text \<open>
  C3, as the code has it. \<open>setKernel\<close> refuses the undefined key, in the slot map and in
  the table: the assertion fails and the state is the one before the call.
  \<open>removeKernelIfExists\<close> has no such assertion: it raises no assertion failure for any
  key, and it treats the undefined key like any other key of the array, which for an empty
  slot means that it returns and changes nothing.
\<close>

theorem undefined_key_refused_by_setKernel_only:
  "kft_setKernel decl (UndefinedTensorId decl) f ks = (Inl AssertionFailed, ks)
   \<and> setKernel decl (UndefinedTensorId decl) f t = (Inl AssertionFailed, t)
   \<and> fst (removeKernelIfExists k t) \<noteq> Inl AssertionFailed
   \<and> (unat (UndefinedTensorId decl) < length (kernels (kernelTable t)) \<longrightarrow>
        fst (removeKernelIfExists (UndefinedTensorId decl) t) = Inr ())
   \<and> (unat (UndefinedTensorId decl) < length (kernels (kernelTable t))
        \<and> \<not> isValid (kernels (kernelTable t) ! unat (UndefinedTensorId decl)) \<longrightarrow>
        removeKernelIfExists (UndefinedTensorId decl) t = (Inr (), t))"
  by (simp add: kft_setKernel_def setKernel_def removeKernelIfExists_def
      kft_removeKernelIfExists_def split: option.splits)

theorem undefined_key_refused_by_setKernel_only_witness:
  "unat (UndefinedTensorId decl6) < length (kernels (kernelTable table_1_4_catchall))
   \<and> \<not> isValid (kernels (kernelTable table_1_4_catchall) ! unat (UndefinedTensorId decl6))
   \<and> setKernel decl6 (UndefinedTensorId decl6) (kernel_of 9) table_1_4_catchall
       = (Inl AssertionFailed, table_1_4_catchall)
   \<and> fst (removeKernelIfExists (UndefinedTensorId decl6) table_1_4_catchall) = Inr ()"
proof -
  have a: "unat (UndefinedTensorId decl6) < length (kernels (kernelTable table_1_4_catchall))"
    by (simp add: table_1_4_catchall_eval decl6_def)
  have b: "\<not> isValid (kernels (kernelTable table_1_4_catchall) ! unat (UndefinedTensorId decl6))"
    by (simp add: table_1_4_catchall_eval decl6_def isValid_def)
  from a b undefined_key_refused_by_setKernel_only
    [of decl6 "kernel_of 9" "kernelTable table_1_4_catchall" table_1_4_catchall "UndefinedTensorId decl6"]
  show ?thesis by blast
qed

section \<open>The diagnostic listing (C4)\<close>

lemma comma_separated_Cons:
  "comma_separated (x # xs) = x @ (if xs = [] then [] else '', '' @ comma_separated xs)"
  by (cases xs) simp_all

lemma comma_separated_snoc:
  "comma_separated (xs @ [y]) = (if xs = [] then y else comma_separated xs @ '', '' @ y)"
  by (induction xs rule: comma_separated.induct) simp_all

lemma occupied_keys_from_step:
  assumes "i < length (kernels ks)"
  shows "occupied_keys_from ks i =
           (if isValid (kernels ks ! i) then [of_nat i] else []) @ occupied_keys_from ks (Suc i)"
  using assms by (simp add: occupied_keys_from_def upt_conv_Cons)

lemma occupied_keys_from_end: "occupied_keys_from ks (length (kernels ks)) = []"
  by (simp add: occupied_keys_from_def)

text \<open>
  The listing loop, started at \<open>iter\<close> with the text \<open>str\<close> written so far, appends the
  occupied keys from \<open>iter\<close> on, each after a separator unless it is the first key written.
\<close>

lemma listAllDispatchKeys_loop_result:
  assumes "length (kernels ks) = unat (NumTensorIds decl)"
    and "unat iter \<le> unat (NumTensorIds decl)"
    and "n = unat (NumTensorIds decl) - unat iter"
  shows "listAllDispatchKeys_loop decl ks iter has_kernels str =
           Inr (has_kernels \<or> occupied_keys_from ks (unat iter) \<noteq> [],
                str @ (if occupied_keys_from ks (unat iter) = [] then []
                       else (if has_kernels then '', '' else [])
                            @ comma_separated (map (toString decl) (occupied_keys_from ks (unat iter)))))"
  using assms
proof (induction n arbitrary: iter has_kernels str)
  case 0
  then have "unat iter = unat (NumTensorIds decl)" by simp
  then have "iter = NumTensorIds decl" by (simp add: word_unat_eq_iff)
  with 0 occupied_keys_from_end [of ks] show ?case
    by (simp add: listAllDispatchKeys_loop.simps [of decl ks "NumTensorIds decl"])
next
  case (Suc n)
  then have lt: "unat iter < unat (NumTensorIds decl)" by simp
  then have ne: "iter \<noteq> NumTensorIds decl" by auto
  have suc: "unat (iter + 1) = Suc (unat iter)"
    using lt unat_uint8_bound [of "NumTensorIds decl"] unat_add_lem [of iter 1] by simp
  from lt Suc.prems(1) have inr: "unat iter < length (kernels ks)" by simp
  note keys = occupied_keys_from_step [OF inr]
  have le': "unat (iter + 1) \<le> unat (NumTensorIds decl)" and n': "n = unat (NumTensorIds decl) - unat (iter + 1)"
    using lt suc Suc.prems(3) by simp_all
  note IH = Suc.IH [OF Suc.prems(1) le' n']
  show ?case
  proof (cases "isValid (kernels ks ! unat iter)")
    case False
    with ne inr have "listAllDispatchKeys_loop decl ks iter has_kernels str
        = listAllDispatchKeys_loop decl ks (iter + 1) has_kernels str"
      by (subst listAllDispatchKeys_loop.simps) (simp add: kft_at_def)
    with False keys show ?thesis by (simp add: IH suc)
  next
    case True
    with ne inr have "listAllDispatchKeys_loop decl ks iter has_kernels str
        = listAllDispatchKeys_loop decl ks (iter + 1) True
            (str @ (if has_kernels then '', '' else []) @ toString decl iter)"
      by (subst listAllDispatchKeys_loop.simps) (simp add: kft_at_def)
    with True keys show ?thesis by (simp add: IH suc comma_separated_Cons)
  qed
qed

lemma listAllDispatchKeys_eq_listing:
  assumes "length (kernels (kernelTable t)) = unat (NumTensorIds decl)"
  shows "listAllDispatchKeys decl t = Inr (listing decl t)"
proof -
  have "listAllDispatchKeys_loop decl (kernelTable t) 0 False ''['' =
      Inr (occupied_keys (kernelTable t) \<noteq> [],
           ''['' @ comma_separated (map (toString decl) (occupied_keys (kernelTable t))))"
    using listAllDispatchKeys_loop_result [OF assms, of 0 "unat (NumTensorIds decl)" False "''[''"]
    by (simp add: occupied_keys_def)
  then show ?thesis
    by (simp add: listAllDispatchKeys_def listing_def comma_separated_snoc)
qed

lemma unat_of_nat_uint8: "i < 256 \<Longrightarrow> unat (of_nat i :: 8 word) = i"
  by (simp add: unat_of_nat)

lemma set_occupied_keys:
  assumes "length (kernels ks) = unat (NumTensorIds decl)"
  shows "set (occupied_keys ks) = {k. unat k < length (kernels ks) \<and> isValid (kernels ks ! unat k)}"
proof -
  have small: "i < 256" if "i < length (kernels ks)" for i
    using that assms unat_uint8_bound [of "NumTensorIds decl"] by simp
  show ?thesis
  proof (intro set_eqI iffI)
    fix k :: "8 word"
    assume "k \<in> set (occupied_keys ks)"
    then obtain i where i: "i < length (kernels ks)" "isValid (kernels ks ! i)" "k = of_nat i"
      by (auto simp: occupied_keys_def occupied_keys_from_def)
    with small [OF i(1)] have "unat k = i" by (simp add: unat_of_nat_uint8)
    with i show "k \<in> {k. unat k < length (kernels ks) \<and> isValid (kernels ks ! unat k)}" by simp
  next
    fix k :: "8 word"
    assume "k \<in> {k. unat k < length (kernels ks) \<and> isValid (kernels ks ! unat k)}"
    then have "unat k \<in> set (filter (\<lambda>j. isValid (kernels ks ! j)) [0..<length (kernels ks)])"
      by simp
    then have "(of_nat (unat k) :: 8 word)
        \<in> of_nat ` set (filter (\<lambda>j. isValid (kernels ks ! j)) [0..<length (kernels ks)])"
      by (rule imageI)
    then show "k \<in> set (occupied_keys ks)"
      by (simp add: occupied_keys_def occupied_keys_from_def)
  qed
qed

lemma ascending_occupied_keys:
  assumes "length (kernels ks) = unat (NumTensorIds decl)"
  shows "sorted_wrt (<) (occupied_keys ks)"
proof -
  let ?js = "filter (\<lambda>j. isValid (kernels ks ! j)) [0..<length (kernels ks)]"
  have "sorted_wrt (<) ?js"
    by (rule sorted_wrt_filter) (simp add: sorted_wrt_upt)
  moreover have "(of_nat i :: 8 word) < of_nat j" if "i \<in> set ?js" "j \<in> set ?js" "i < j" for i j
  proof -
    from that assms unat_uint8_bound [of "NumTensorIds decl"] have "i < 256" "j < 256" by simp_all
    with that(3) show ?thesis by (simp add: word_less_nat_alt unat_of_nat_uint8)
  qed
  ultimately have "sorted_wrt (\<lambda>i j. (of_nat i :: 8 word) < of_nat j) ?js"
    by (rule sorted_wrt_mono_rel [rotated]) 
  then show ?thesis
    by (simp add: occupied_keys_def occupied_keys_from_def sorted_wrt_map)
qed

lemma listing_table_1_4_catchall: "listing decl6 table_1_4_catchall = ''[1, 4, CATCH-ALL]''"
  by (simp add: listing_def occupied_keys_def occupied_keys_from_def table_1_4_catchall_eval
      isValid_def kernel_of_def decl6_def toString_decimal_def upt_rec_numeral)


text \<open>
  C4. For every table state (the slot array having the length \<^verbatim>\<open>NumTensorIds\<close> that its
  type gives it) \<open>listAllDispatchKeys\<close> returns the text made of an opening bracket, the
  occupied keys and then the marker \<open>CATCH-ALL\<close> if and only if the catch-all is installed,
  separated by a comma and a blank, and a closing bracket. The keys listed are in strictly
  ascending order and are exactly the keys whose slot is occupied. Each key is written by
  \<open>toString\<close>, whichever function that is. With keys written as decimal numbers, the table
  with kernels at the keys 1 and 4 and a catch-all kernel gives \<open>[1, 4, CATCH-ALL]\<close>.
\<close>

theorem listAllDispatchKeys_lists_occupied_keys:
  "(length (kernels (kernelTable t)) = unat (NumTensorIds decl) \<longrightarrow>
      listAllDispatchKeys decl t = Inr (listing decl t)
      \<and> sorted_wrt (<) (occupied_keys (kernelTable t))
      \<and> set (occupied_keys (kernelTable t))
          = {k. unat k < length (kernels (kernelTable t))
                \<and> isValid (kernels (kernelTable t) ! unat k)})
   \<and> listAllDispatchKeys decl6 table_1_4_catchall = Inr ''[1, 4, CATCH-ALL]''"
proof (intro conjI impI)
  assume len: "length (kernels (kernelTable t)) = unat (NumTensorIds decl)"
  from len show "listAllDispatchKeys decl t = Inr (listing decl t)"
    by (rule listAllDispatchKeys_eq_listing)
  from len show "sorted_wrt (<) (occupied_keys (kernelTable t))"
    by (rule ascending_occupied_keys)
  from len show "set (occupied_keys (kernelTable t))
      = {k. unat k < length (kernels (kernelTable t)) \<and> isValid (kernels (kernelTable t) ! unat k)}"
    by (rule set_occupied_keys)
next
  show "listAllDispatchKeys decl6 table_1_4_catchall = Inr ''[1, 4, CATCH-ALL]''"
    by (simp add: listAllDispatchKeys_eq_listing [OF length_table_1_4_catchall]
        listing_table_1_4_catchall)
qed

theorem listAllDispatchKeys_lists_occupied_keys_witness:
  "length (kernels (kernelTable (snd (removeCatchallKernel table_1_4_catchall))))
     = unat (NumTensorIds decl6)
   \<and> listAllDispatchKeys decl6 (snd (removeCatchallKernel table_1_4_catchall)) = Inr ''[1, 4]''
   \<and> set (occupied_keys (kernelTable (snd (removeCatchallKernel table_1_4_catchall)))) = {1, 4}"
proof -
  let ?t = "snd (removeCatchallKernel table_1_4_catchall)"
  have len: "length (kernels (kernelTable ?t)) = unat (NumTensorIds decl6)"
    by (simp add: table_1_4_catchall_eval removeCatchallKernel_def decl6_def)
  have shown: "listing decl6 ?t = ''[1, 4]''"
    by (simp add: listing_def occupied_keys_def occupied_keys_from_def table_1_4_catchall_eval
        removeCatchallKernel_def KernelFunction_default_def
        isValid_def kernel_of_def decl6_def toString_decimal_def upt_rec_numeral)
  have keys: "occupied_keys (kernelTable ?t) = [1, 4]"
    by (simp add: occupied_keys_def occupied_keys_from_def table_1_4_catchall_eval
        removeCatchallKernel_def isValid_def kernel_of_def upt_rec_numeral)
  from len shown keys listAllDispatchKeys_lists_occupied_keys [of ?t decl6]
  show ?thesis by simp
qed

section \<open>The occupancy counter (C5)\<close>

lemma table_ok_perform:
  assumes ok: "table_ok decl (kernelTable t)" and adm: "admissible decl c"
  shows "table_ok decl (kernelTable (perform decl c t))"
proof (cases c)
  case (SetKernel k kfn)
  let ?kfn1 = "case manuallyBoxedKernel t of
                 Some func \<Rightarrow> setManuallyBoxedKernel_KF func kfn | None \<Rightarrow> kfn"
  have eq: "kernelTable (perform decl c t) = snd (kft_setKernel decl k ?kfn1 (kernelTable t))"
    using SetKernel by (simp add: setKernel_def split: prod.splits sum.splits)
  show ?thesis
  proof (cases "k = UndefinedTensorId decl")
    case True
    with ok eq show ?thesis by (simp add: table_ok_kft_setKernel_undefined)
  next
    case False
    with adm SetKernel have "isValid kfn" by simp
    then have "isValid ?kfn1" by (simp split: option.splits)
    from table_ok_kft_setKernel [OF ok this] eq show ?thesis by simp
  qed
next
  case (RemoveKernelIfExists k)
  then have "kernelTable (perform decl c t) = snd (kft_removeKernelIfExists k (kernelTable t))"
    by (simp add: removeKernelIfExists_def split: prod.splits)
  with table_ok_kft_removeKernelIfExists [OF ok] show ?thesis by simp
next
  case (SetCatchallKernel kfn)
  with ok show ?thesis by (simp add: setCatchallKernel_def Let_def)
next
  case RemoveCatchallKernel
  with ok show ?thesis by (simp add: removeCatchallKernel_def)
next
  case (SetManuallyBoxedKernel func)
  from ok have len: "length (kernels (kernelTable t)) = unat (NumTensorIds decl)"
    by (simp add: table_ok_def)
  show ?thesis
  proof (cases "manuallyBoxedKernel t")
    case None
    with SetManuallyBoxedKernel have "kernelTable (perform decl c t)
        = (kernelTable t)\<lparr>kernels := map (retrofitted func) (kernels (kernelTable t))\<rparr>"
      by (simp add: setManuallyBoxedKernel_DT_def setManuallyBoxedKernel_loop_all [OF len])
    with ok show ?thesis
      by (simp add: table_ok_def occupied_def kft_size_def comp_def)
  next
    case (Some f)
    with SetManuallyBoxedKernel ok show ?thesis by (simp add: setManuallyBoxedKernel_DT_def)
  qed
qed

lemma table_ok_run:
  "table_ok decl (kernelTable t) \<Longrightarrow> list_all (admissible decl) calls
     \<Longrightarrow> table_ok decl (kernelTable (run decl calls t))"
  by (induction calls arbitrary: t) (simp_all add: table_ok_perform)

lemma table_ok_DispatchTable_new:
  "table_ok decl (kernelTable (DispatchTable_new decl extractor opname))"
  by (simp add: DispatchTable_new_def table_ok_new)

text \<open>
  The claim C5 fails when \<open>setKernel\<close> is handed a \<^verbatim>\<open>KernelFunction\<close> in its invalid
  state: \<open>setKernel\<close> never tests the validity of its argument. On a freshly constructed
  table \<open>setKernel(1, KernelFunction())\<close> finds slot 1 empty, reports
  \<open>ADDED_NEW_KERNEL\<close>, counts up and stores the invalid value: \<open>size()\<close> is 1 and no
  keyed slot is occupied. A second such call counts up again.
\<close>

theorem size_exceeds_occupied_slots_after_invalid_kernel:
  "fst (kft_setKernel decl6 1 KernelFunction_default (kernelTable table_empty))
     = Inr ADDED_NEW_KERNEL
   \<and> unat (kft_size (kernelTable
          (run decl6 [SetKernel 1 KernelFunction_default] table_empty))) = 1
   \<and> occupied (kernelTable
          (run decl6 [SetKernel 1 KernelFunction_default] table_empty)) = 0
   \<and> unat (kft_size (kernelTable
          (run decl6 [SetKernel 1 KernelFunction_default, SetKernel 1 KernelFunction_default]
             table_empty))) = 2
   \<and> occupied (kernelTable
          (run decl6 [SetKernel 1 KernelFunction_default, SetKernel 1 KernelFunction_default]
             table_empty)) = 0
   \<and> unat (kft_size (kernelTable
          (run decl6 [SetKernel 1 KernelFunction_default] table_empty)))
       \<noteq> occupied (kernelTable
          (run decl6 [SetKernel 1 KernelFunction_default] table_empty))"
  by (simp add: table_empty_eval replicate6 setKernel_def kft_setKernel_def kft_size_def
      occupied_def isValid_def KernelFunction_default_def decl6_def)

text \<open>
  C5, as the code has it. Provided that every \<open>setKernel\<close> registers a kernel, that is a
  \<^verbatim>\<open>KernelFunction\<close> in its valid state, and that keyed calls take keys of the key domain:
  in every state that such calls reach from a freshly constructed table, \<open>size()\<close> is
  the number of occupied keyed slots; the count does not mention the catch-all slot. Each
  single call (\<open>setKernel\<close>, \<open>removeKernelIfExists\<close>, \<open>setCatchallKernel\<close>,
  \<open>removeCatchallKernel\<close>, \<open>setManuallyBoxedKernel_\<close>) keeps the equality.
\<close>

theorem size_counts_occupied_slots:
  fixes t :: "('f, 'b, 'e) DispatchTable"
  shows "(table_ok decl (kernelTable t) \<and> admissible decl c
            \<longrightarrow> table_ok decl (kernelTable (perform decl c t)))
       \<and> (list_all (admissible decl) calls
            \<longrightarrow> unat (kft_size (kernelTable
                   (run decl calls (DispatchTable_new decl extractor opname :: ('f, 'b, 'e) DispatchTable))))
                = occupied (kernelTable
                   (run decl calls (DispatchTable_new decl extractor opname :: ('f, 'b, 'e) DispatchTable))))"
proof (intro conjI impI)
  assume "table_ok decl (kernelTable t) \<and> admissible decl c"
  then show "table_ok decl (kernelTable (perform decl c t))"
    by (simp add: table_ok_perform)
next
  let ?new = "DispatchTable_new decl extractor opname :: ('f, 'b, 'e) DispatchTable"
  assume "list_all (admissible decl) calls"
  with table_ok_DispatchTable_new have "table_ok decl (kernelTable (run decl calls ?new))"
    by (rule table_ok_run)
  then show "unat (kft_size (kernelTable (run decl calls ?new)))
      = occupied (kernelTable (run decl calls ?new))"
    by (simp add: table_ok_def)
qed

theorem size_counts_occupied_slots_witness:
  "table_ok decl6 (kernelTable table_1_4_catchall)
   \<and> admissible decl6 (RemoveKernelIfExists 4 :: (nat, nat) call)
   \<and> table_ok decl6 (kernelTable (perform decl6 (RemoveKernelIfExists 4) table_1_4_catchall))
   \<and> list_all (admissible decl6)
        [SetKernel 1 (kernel_of 1), SetKernel 1 (kernel_of 2), SetCatchallKernel (kernel_of 3),
         RemoveKernelIfExists 1, RemoveKernelIfExists 1]
   \<and> unat (kft_size (kernelTable (run decl6
        [SetKernel 1 (kernel_of 1), SetKernel 1 (kernel_of 2), SetCatchallKernel (kernel_of 3),
         RemoveKernelIfExists 1, RemoveKernelIfExists 1] table_empty)))
       = occupied (kernelTable (run decl6
        [SetKernel 1 (kernel_of 1), SetKernel 1 (kernel_of 2), SetCatchallKernel (kernel_of 3),
         RemoveKernelIfExists 1, RemoveKernelIfExists 1] table_empty))"
proof -
  have ok: "table_ok decl6 (kernelTable table_1_4_catchall)"
    by (simp add: table_1_4_catchall_eval eval_defs)
  have adm: "admissible decl6 (RemoveKernelIfExists 4 :: (nat, nat) call)"
    by (simp add: decl6_def)
  have adms: "list_all (admissible decl6)
        [SetKernel 1 (kernel_of 1), SetKernel 1 (kernel_of 2), SetCatchallKernel (kernel_of 3),
         RemoveKernelIfExists 1, RemoveKernelIfExists 1]"
    by (simp add: decl6_def kernel_of_def isValid_def)
  from ok adm adms
    size_counts_occupied_slots [of decl6 table_1_4_catchall "RemoveKernelIfExists 4"
      "[SetKernel 1 (kernel_of 1), SetKernel 1 (kernel_of 2), SetCatchallKernel (kernel_of 3),
         RemoveKernelIfExists 1, RemoveKernelIfExists 1]" "()" "''add''"]
  show ?thesis unfolding table_empty_def by blast
qed

section \<open>Registering and looking up (C6)\<close>

text \<open>
  No call writes \<^verbatim>\<open>manuallyBoxedKernel_\<close>: the optional is empty in every state reached
  from a constructed table.
\<close>

lemma manuallyBoxedKernel_perform:
  "manuallyBoxedKernel (perform decl c t) = manuallyBoxedKernel t"
  by (cases c)
     (simp_all add: setKernel_def removeKernelIfExists_def setCatchallKernel_def Let_def
        removeCatchallKernel_def setManuallyBoxedKernel_DT_def split: prod.splits sum.splits)

lemma manuallyBoxedKernel_run:
  "manuallyBoxedKernel (run decl calls t) = manuallyBoxedKernel t"
  by (induction calls arbitrary: t) (simp_all add: manuallyBoxedKernel_perform)

lemma manuallyBoxedKernel_reachable:
  "manuallyBoxedKernel (run decl calls (DispatchTable_new decl extractor opname)) = None"
  by (simp add: manuallyBoxedKernel_run DispatchTable_new_def)



section \<open>Removing a keyed kernel (C7)\<close>

lemma ne_set_nonempty: "x \<in> set xs \<Longrightarrow> xs \<noteq> []"
  by auto

text \<open>
  C7. For a key \<open>k\<close> of the key domain: on an unoccupied slot \<open>removeKernelIfExists(k)\<close>
  reports \<open>KERNEL_DIDNT_EXIST\<close> and changes nothing, so \<open>size()\<close> stays; on an occupied
  slot it reports \<open>REMOVED_KERNEL\<close>, \<open>size()\<close> goes down by one (by exactly one as a
  number when the counter agreed with the slots before), and \<open>lookup(k)\<close> then reports
  absence. In both cases the call returns: it raises nothing.
\<close>

theorem removeKernelIfExists_effect:
  assumes "unat k < length (kernels (kernelTable t))"
  shows "(\<not> isValid (kernels (kernelTable t) ! unat k) \<longrightarrow>
            kft_removeKernelIfExists k (kernelTable t) = (Inr KERNEL_DIDNT_EXIST, kernelTable t)
            \<and> removeKernelIfExists k t = (Inr (), t))
       \<and> (isValid (kernels (kernelTable t) ! unat k) \<longrightarrow>
            fst (kft_removeKernelIfExists k (kernelTable t)) = Inr REMOVED_KERNEL
            \<and> fst (removeKernelIfExists k t) = Inr ()
            \<and> kft_size (kernelTable (snd (removeKernelIfExists k t)))
                = kft_size (kernelTable t) - 1
            \<and> (table_ok decl (kernelTable t) \<longrightarrow>
                 unat (kft_size (kernelTable (snd (removeKernelIfExists k t)))) + 1
                   = unat (kft_size (kernelTable t)))
            \<and> lookup (snd (removeKernelIfExists k t)) k = Inr None)
       \<and> fst (removeKernelIfExists k t) = Inr ()"
proof (cases "isValid (kernels (kernelTable t) ! unat k)")
  case False
  with assms show ?thesis
    by (simp add: kft_removeKernelIfExists_def removeKernelIfExists_def)
next
  case True
  have "unat (kernelCount (kernelTable t) - 1) + 1 = unat (kernelCount (kernelTable t))"
    if ok: "table_ok decl (kernelTable t)"
  proof -
    from assms True have "kernels (kernelTable t) ! unat k \<in> set (filter isValid (kernels (kernelTable t)))"
      by simp
    then have "filter isValid (kernels (kernelTable t)) \<noteq> []"
      by (rule ne_set_nonempty)
    then have "0 < length (filter isValid (kernels (kernelTable t)))"
      by simp
    with ok have "kernelCount (kernelTable t) \<noteq> 0"
      by (auto simp: table_ok_def occupied_def kft_size_def)
    then show ?thesis by (simp add: unat_minus_one unat_gt_0)
  qed
  with assms True show ?thesis
    by (simp add: kft_removeKernelIfExists_def removeKernelIfExists_def kft_size_def
        lookup_def kft_at_def not_isValid_default)
qed

theorem removeKernelIfExists_effect_witness:
  "unat (4 :: 8 word) < length (kernels (kernelTable table_1_4_catchall))
   \<and> isValid (kernels (kernelTable table_1_4_catchall) ! unat (4 :: 8 word))
   \<and> table_ok decl6 (kernelTable table_1_4_catchall)
   \<and> \<not> isValid (kernels (kernelTable table_1_4_catchall) ! unat (2 :: 8 word))
   \<and> removeKernelIfExists 2 table_1_4_catchall = (Inr (), table_1_4_catchall)
   \<and> fst (kft_removeKernelIfExists 4 (kernelTable table_1_4_catchall)) = Inr REMOVED_KERNEL
   \<and> unat (kft_size (kernelTable (snd (removeKernelIfExists 4 table_1_4_catchall)))) + 1
       = unat (kft_size (kernelTable table_1_4_catchall))
   \<and> lookup (snd (removeKernelIfExists 4 table_1_4_catchall)) 4 = Inr None"
proof -
  have a: "unat (4 :: 8 word) < length (kernels (kernelTable table_1_4_catchall))"
    and a2: "unat (2 :: 8 word) < length (kernels (kernelTable table_1_4_catchall))"
    by (simp_all add: table_1_4_catchall_eval)
  have b: "isValid (kernels (kernelTable table_1_4_catchall) ! unat (4 :: 8 word))"
    by (simp add: table_1_4_catchall_eval isValid_def kernel_of_def)
  have c: "table_ok decl6 (kernelTable table_1_4_catchall)"
    by (simp add: table_1_4_catchall_eval eval_defs)
  have d: "\<not> isValid (kernels (kernelTable table_1_4_catchall) ! unat (2 :: 8 word))"
    by (simp add: table_1_4_catchall_eval isValid_def)
  from a a2 b c d removeKernelIfExists_effect [OF a, of decl6]
    removeKernelIfExists_effect [OF a2, of decl6]
  show ?thesis by blast
qed

section \<open>Removing the catch-all kernel (C8)\<close>

text \<open>
  C8. \<open>removeCatchallKernel\<close> fails its assertion when no catch-all kernel is installed
  and then leaves the table as it was; when one is installed the call returns, the
  catch-all slot is the empty kernel, \<open>lookupCatchallKernel\<close> reports absence, and no
  other member has changed.
\<close>

theorem removeCatchallKernel_fatal_or_clears:
  "(\<not> isValid (catchallKernel t) \<longrightarrow> removeCatchallKernel t = (Inl AssertionFailed, t))
   \<and> (isValid (catchallKernel t) \<longrightarrow>
         removeCatchallKernel t = (Inr (), t\<lparr>catchallKernel := KernelFunction_default\<rparr>)
         \<and> lookupCatchallKernel (snd (removeCatchallKernel t)) = None)"
  by (simp add: removeCatchallKernel_def lookupCatchallKernel_def not_isValid_default)

theorem removeCatchallKernel_fatal_or_clears_witness:
  "\<not> isValid (catchallKernel table_empty)
   \<and> removeCatchallKernel table_empty = (Inl AssertionFailed, table_empty)
   \<and> isValid (catchallKernel table_1_4_catchall)
   \<and> removeCatchallKernel table_1_4_catchall
       = (Inr (), table_1_4_catchall\<lparr>catchallKernel := KernelFunction_default\<rparr>)
   \<and> lookupCatchallKernel (snd (removeCatchallKernel table_1_4_catchall)) = None"
proof -
  have a: "\<not> isValid (catchallKernel table_empty)"
    by (simp add: table_empty_eval isValid_def)
  have b: "isValid (catchallKernel table_1_4_catchall)"
    by (simp add: table_1_4_catchall_eval isValid_def kernel_of_def)
  from a b removeCatchallKernel_fatal_or_clears [of table_empty]
    removeCatchallKernel_fatal_or_clears [of table_1_4_catchall]
  show ?thesis by blast
qed

section \<open>Emptiness (C9)\<close>

text \<open>
  C9. In every table state \<open>isEmpty()\<close> is true exactly when \<open>size()\<close> is zero and no
  catch-all kernel is installed, where "installed" is what \<open>lookupCatchallKernel\<close> reports.
\<close>

theorem isEmpty_iff_size_zero_and_no_catchall:
  "isEmpty t = (kft_size (kernelTable t) = 0 \<and> lookupCatchallKernel t = None)"
  by (auto simp: isEmpty_def lookupCatchallKernel_def)

section \<open>Frames (C10)\<close>

text \<open>
  C10. For a key \<open>k\<close> of the key domain and a key \<open>j\<close> other than \<open>k\<close>:
  \<open>setKernel(k, f)\<close> and \<open>removeKernelIfExists(k)\<close> leave slot \<open>j\<close> (hence what
  \<open>lookup(j)\<close> reports) and the catch-all slot as they were; \<open>setCatchallKernel\<close> and
  \<open>removeCatchallKernel\<close> leave the whole slot map as it was, every keyed slot and
  \<open>size()\<close> with it.
\<close>

theorem mutations_are_framed:
  assumes "unat k < length (kernels (kernelTable t))" and "j \<noteq> k"
  shows "kft_at (kernelTable (snd (setKernel decl k f t))) j = kft_at (kernelTable t) j
       \<and> lookup (snd (setKernel decl k f t)) j = lookup t j
       \<and> catchallKernel (snd (setKernel decl k f t)) = catchallKernel t
       \<and> kft_at (kernelTable (snd (removeKernelIfExists k t))) j = kft_at (kernelTable t) j
       \<and> lookup (snd (removeKernelIfExists k t)) j = lookup t j
       \<and> catchallKernel (snd (removeKernelIfExists k t)) = catchallKernel t
       \<and> kernelTable (snd (setCatchallKernel f t)) = kernelTable t
       \<and> kft_size (kernelTable (snd (setCatchallKernel f t))) = kft_size (kernelTable t)
       \<and> kernelTable (snd (removeCatchallKernel t)) = kernelTable t
       \<and> kft_size (kernelTable (snd (removeCatchallKernel t))) = kft_size (kernelTable t)"
proof -
  from assms(2) have ne: "unat j \<noteq> unat k" by (simp add: word_unat_eq_iff)
  have set_at: "kft_at (kernelTable (snd (setKernel decl k f t))) j = kft_at (kernelTable t) j"
    using ne by (simp add: setKernel_def kft_setKernel_def kft_at_def Let_def)
  have rem_at: "kft_at (kernelTable (snd (removeKernelIfExists k t))) j = kft_at (kernelTable t) j"
    using ne by (simp add: removeKernelIfExists_def kft_removeKernelIfExists_def kft_at_def)
  have set_c: "catchallKernel (snd (setKernel decl k f t)) = catchallKernel t"
    by (simp add: setKernel_def Let_def split: prod.splits sum.splits)
  have rem_c: "catchallKernel (snd (removeKernelIfExists k t)) = catchallKernel t"
    by (simp add: removeKernelIfExists_def split: prod.splits)
  have sc: "kernelTable (snd (setCatchallKernel f t)) = kernelTable t"
    by (simp add: setCatchallKernel_def Let_def)
  have rc: "kernelTable (snd (removeCatchallKernel t)) = kernelTable t"
    by (simp add: removeCatchallKernel_def)
  from set_at rem_at set_c rem_c sc rc show ?thesis
    by (simp add: lookup_def)
qed

theorem mutations_are_framed_witness:
  "unat (4 :: 8 word) < length (kernels (kernelTable table_1_4_catchall))
   \<and> (1 :: 8 word) \<noteq> 4
   \<and> lookup (snd (setKernel decl6 4 (kernel_of 9) table_1_4_catchall)) 1
       = lookup table_1_4_catchall 1
   \<and> lookup (snd (removeKernelIfExists 4 table_1_4_catchall)) 1 = lookup table_1_4_catchall 1
   \<and> catchallKernel (snd (removeKernelIfExists 4 table_1_4_catchall))
       = catchallKernel table_1_4_catchall
   \<and> kernelTable (snd (removeCatchallKernel table_1_4_catchall)) = kernelTable table_1_4_catchall"
proof -
  have a: "unat (4 :: 8 word) < length (kernels (kernelTable table_1_4_catchall))"
    by (simp add: table_1_4_catchall_eval)
  have b: "(1 :: 8 word) \<noteq> 4" by simp
  from a b mutations_are_framed [OF a b, of decl6 "kernel_of 9"]
  show ?thesis by blast
qed

end
